theory Spec2Isabelle
  imports Main "HOL-Library.Word" "HOL-Library.Signed_Division" "HOL-Library.Sublist"
begin

section \<open>Clipboard monitor: the data model\<close>

text \<open>
  The program is one Go file, \<^verbatim>\<open>clipboard_monitor_gui.go\<close>. Go strings are byte
  sequences and \<^verbatim>\<open>len\<close> counts bytes, so a Go string is a \<^typ>\<open>string\<close> here
  (a list of 8-bit characters). \<^verbatim>\<open>time.Duration\<close> is an \<^verbatim>\<open>int64\<close> count of
  nanoseconds and \<^verbatim>\<open>int\<close> is taken as 64 bits wide: both are \<^typ>\<open>64 word\<close>,
  read as two's complement with \<^const>\<open>sint\<close>.
\<close>

type_synonym Duration = "64 word"

definition Millisecond :: Duration where
  "Millisecond = 1000000"

definition maxTextSize :: nat where
  "maxTextSize = 512 * 512"

text \<open>
  \<^verbatim>\<open>type Rule struct\<close>. The pointer \<^verbatim>\<open>Regexp *regexp.Regexp\<close> is \<^verbatim>\<open>nil\<close> or a
  compiled expression: an option over the type \<open>'rx\<close> of compiled expressions.
\<close>

record 'rx Rule =
  Pattern :: string
  Replacement :: string
  Enabled :: bool
  Regexp :: "'rx option"

text \<open>
  Go's package \<^verbatim>\<open>regexp\<close> is a library the program calls, not code of the program.
  The three entry points the program uses are taken as a parameter:
  \<^verbatim>\<open>regexp.Compile\<close> (\<^const>\<open>None\<close> when it returns an error),
  \<^verbatim>\<open>(*Regexp).ReplaceAllString\<close> with arguments in Go's order (source text, then
  replacement template) and \<^verbatim>\<open>(*Regexp).MatchString\<close>.
\<close>

record 'rx regexp_pkg =
  Compile :: "string \<Rightarrow> 'rx option"
  ReplaceAllString :: "'rx \<Rightarrow> string \<Rightarrow> string \<Rightarrow> string"
  MatchString :: "'rx \<Rightarrow> string \<Rightarrow> bool"

text \<open>
  The package-level variables, together with the text of the status label that
  \<^verbatim>\<open>monitorClipboard\<close> receives. (\<^verbatim>\<open>rulesList\<close> is a widget and is left out.)
\<close>

record 'rx globals =
  monitoring :: bool
  replacementRules :: "'rx Rule list"
  monitorInterval :: Duration
  lastText :: string
  statusLabel :: string

text \<open>The values the \<^verbatim>\<open>var\<close> block and \<^verbatim>\<open>main\<close> give them at start-up.\<close>

definition initial :: "'rx globals" where
  "initial = \<lparr>monitoring = False, replacementRules = [], monitorInterval = 500 * Millisecond,
     lastText = [], statusLabel = ''Status: Waiting for actions''\<rparr>"

section \<open>Content classification\<close>

text \<open>
  \<^verbatim>\<open>isTextContent\<close> matches the input against the character class
  \<^verbatim>\<open>[\x00-\x08\x0B\x0C\x0E-\x1F]\<close>. An unanchored match of a one-character class
  succeeds when some character of the input lies in one of the ranges; every member
  of the class is below \<^verbatim>\<open>0x80\<close>, so this is a test on single bytes.
\<close>

definition controlClass :: "(nat \<times> nat) list" where
  "controlClass = [(0x00, 0x08), (0x0B, 0x0B), (0x0C, 0x0C), (0x0E, 0x1F)]"

definition inClass :: "(nat \<times> nat) list \<Rightarrow> char \<Rightarrow> bool" where
  "inClass cls c = list_ex (\<lambda>(lo, hi). lo \<le> of_char c \<and> (of_char c :: nat) \<le> hi) cls"

definition classMatchString :: "(nat \<times> nat) list \<Rightarrow> string \<Rightarrow> bool" where
  "classMatchString cls s = list_ex (inClass cls) s"

definition isTextContent :: "string \<Rightarrow> bool" where
  "isTextContent content = (length content > 0 \<and> \<not> classMatchString controlClass content)"

definition isTextTooLarge :: "string \<Rightarrow> bool" where
  "isTextTooLarge content = (length content > maxTextSize)"

section \<open>The rule engine\<close>

text \<open>
  \<^verbatim>\<open>applyRules\<close>: the \<^verbatim>\<open>for _, rule := range replacementRules\<close> loop, with the
  running \<^verbatim>\<open>currentText\<close> as the accumulator.
\<close>

fun applyRules :: "'rx regexp_pkg \<Rightarrow> 'rx Rule list \<Rightarrow> string \<Rightarrow> string" where
  "applyRules re [] currentText = currentText"
| "applyRules re (rule # rest) currentText =
     applyRules re rest
       (case Regexp rule of
          Some rx \<Rightarrow> if Enabled rule then ReplaceAllString re rx currentText (Replacement rule)
                     else currentText
        | None \<Rightarrow> currentText)"

text \<open>
  The specification's reading of the same operation: one step per rule, folded over
  the list from the left.
\<close>

definition spec_rule_step :: "'rx regexp_pkg \<Rightarrow> string \<Rightarrow> 'rx Rule \<Rightarrow> string" where
  "spec_rule_step re text rule =
     (if Enabled rule \<and> Regexp rule \<noteq> None
      then ReplaceAllString re (the (Regexp rule)) text (Replacement rule)
      else text)"

definition spec_apply :: "'rx regexp_pkg \<Rightarrow> 'rx Rule list \<Rightarrow> string \<Rightarrow> string" where
  "spec_apply re rules text = foldl (spec_rule_step re) text rules"

text \<open>
  The intermediate strings: each rule paired with the text it is applied to.
\<close>

fun intermediates :: "'rx regexp_pkg \<Rightarrow> 'rx Rule list \<Rightarrow> string \<Rightarrow> ('rx Rule \<times> string) list" where
  "intermediates re [] currentText = []"
| "intermediates re (rule # rest) currentText =
     (rule, currentText) # intermediates re rest (applyRules re [rule] currentText)"

section \<open>Persistence\<close>

text \<open>
  The settings file is JSON, written and read by \<^verbatim>\<open>encoding/json\<close>. The file is
  modelled at the level of the decoded document: an object whose keys may be missing,
  or a content that \<^verbatim>\<open>json.Unmarshal\<close> rejects. A rule object has the keys
  \<^verbatim>\<open>pattern\<close>, \<^verbatim>\<open>replacement\<close> and \<^verbatim>\<open>enabled\<close>; the field \<^verbatim>\<open>Regexp\<close> is tagged
  \<^verbatim>\<open>json:"-"\<close> and has no key. A number that does not fit Go's \<^verbatim>\<open>int\<close>, or a
  value of the wrong type, makes \<^verbatim>\<open>json.Unmarshal\<close> fail, so the \<^verbatim>\<open>interval_ms\<close> of a
  document is a 64-bit value.
\<close>

record rule_object =
  key_pattern :: "string option"
  key_replacement :: "string option"
  key_enabled :: "bool option"

record settings_object =
  key_rules :: "rule_object list option"
  key_interval_ms :: "64 word option"

datatype file_content = Malformed | Document settings_object

text \<open>The anonymous struct \<^verbatim>\<open>settings\<close> of \<^verbatim>\<open>loadSettings\<close> and \<^verbatim>\<open>saveSettings\<close>.\<close>

record 'rx settings =
  Rules :: "'rx Rule list"
  Interval :: "64 word"

text \<open>
  \<^verbatim>\<open>json.Unmarshal\<close> into a zero-valued struct: a missing key leaves the zero value
  (\<^verbatim>\<open>""\<close>, \<^verbatim>\<open>false\<close>, \<^verbatim>\<open>0\<close>, \<^verbatim>\<open>nil\<close>), and \<^verbatim>\<open>Regexp\<close> is never filled.
\<close>

definition unmarshalRule :: "rule_object \<Rightarrow> 'rx Rule" where
  "unmarshalRule obj =
     \<lparr>Pattern = (case key_pattern obj of Some p \<Rightarrow> p | None \<Rightarrow> []),
      Replacement = (case key_replacement obj of Some r \<Rightarrow> r | None \<Rightarrow> []),
      Enabled = (case key_enabled obj of Some b \<Rightarrow> b | None \<Rightarrow> False),
      Regexp = None\<rparr>"

definition Unmarshal :: "file_content \<Rightarrow> 'rx settings option" where
  "Unmarshal data =
     (case data of
        Malformed \<Rightarrow> None
      | Document obj \<Rightarrow>
          Some \<lparr>Rules = (case key_rules obj of Some rs \<Rightarrow> map unmarshalRule rs | None \<Rightarrow> []),
                Interval = (case key_interval_ms obj of Some n \<Rightarrow> n | None \<Rightarrow> 0)\<rparr>)"

text \<open>
  The encoder of \<^verbatim>\<open>encoding/json\<close> does not write a Go string byte for byte. It
  walks the string with \<^verbatim>\<open>utf8.DecodeRuneInString\<close> and writes \<^verbatim>\<open>\ufffd\<close> for every
  byte at which the decoder returns \<^verbatim>\<open>(RuneError, 1)\<close>; read back, that escape is the
  three bytes \<^verbatim>\<open>EF BF BD\<close>. All its other escapes read back as the bytes they stand for.

  \<^const>\<open>None\<close> below is the decoder's \<^verbatim>\<open>(RuneError, 1)\<close>, and \<open>Some n\<close> a well-formed
  encoding of \<open>n\<close> bytes at the head of the string: the first byte selects the size
  and the range accepted for the second byte (the table \<^verbatim>\<open>first\<close> and
  \<^verbatim>\<open>acceptRanges\<close> of package \<^verbatim>\<open>utf8\<close>), the later bytes are continuation bytes.
\<close>

definition inRange :: "nat \<Rightarrow> nat \<Rightarrow> char \<Rightarrow> bool" where
  "inRange lo hi c = (lo \<le> of_char c \<and> (of_char c :: nat) \<le> hi)"

fun runeWidth :: "string \<Rightarrow> nat option" where
  "runeWidth [] = None"
| "runeWidth (s0 # rest) =
     (let x = (of_char s0 :: nat) in
      if x < 0x80 then Some 1
      else if x < 0xC2 \<or> 0xF4 < x then None
      else (let sz = (if x < 0xE0 then 2 else if x < 0xF0 then 3 else 4 :: nat);
                lo = (if x = 0xE0 then 0xA0 else if x = 0xF0 then 0x90 else 0x80);
                hi = (if x = 0xED then 0x9F else if x = 0xF4 then 0x8F else 0xBF)
            in if length rest + 1 < sz then None
               else if \<not> inRange lo hi (rest ! 0) then None
               else if sz \<le> 2 then Some 2
               else if \<not> inRange 0x80 0xBF (rest ! 1) then None
               else if sz \<le> 3 then Some 3
               else if \<not> inRange 0x80 0xBF (rest ! 2) then None
               else Some 4))"

text \<open>
  A string as it is read back after the encoder has written it. The width \<open>n\<close> is
  at least one, so the bytes after the encoding are \<open>drop (n - 1)\<close> of the tail.
\<close>

function coerceUTF8 :: "string \<Rightarrow> string" where
  "coerceUTF8 [] = []"
| "coerceUTF8 (b # bs) =
     (case runeWidth (b # bs) of
        None \<Rightarrow> [CHR 0xEF, CHR 0xBF, CHR 0xBD] @ coerceUTF8 bs
      | Some n \<Rightarrow> take n (b # bs) @ coerceUTF8 (drop (n - 1) bs))"
  by pat_completeness auto
termination
  by (relation "measure length") (auto simp: less_Suc_eq_le)

text \<open>The strings the decoder accepts from end to end.\<close>

function validUTF8 :: "string \<Rightarrow> bool" where
  "validUTF8 [] = True"
| "validUTF8 (b # bs) =
     (case runeWidth (b # bs) of
        None \<Rightarrow> False
      | Some n \<Rightarrow> validUTF8 (drop (n - 1) bs))"
  by pat_completeness auto
termination
  by (relation "measure length") (auto simp: less_Suc_eq_le)

text \<open>
  The rule object that reading the written text gives back. A \<^verbatim>\<open>nil\<close> slice of rules
  is written as \<^verbatim>\<open>null\<close> and an empty one as \<^verbatim>\<open>[]\<close>; both are read back as the empty
  list, and a list does not tell them apart, so the empty array stands for both.
\<close>

definition marshalRule :: "'rx Rule \<Rightarrow> rule_object" where
  "marshalRule rule =
     \<lparr>key_pattern = Some (coerceUTF8 (Pattern rule)),
      key_replacement = Some (coerceUTF8 (Replacement rule)),
      key_enabled = Some (Enabled rule)\<rparr>"

definition MarshalIndent :: "'rx settings \<Rightarrow> file_content" where
  "MarshalIndent s =
     Document \<lparr>key_rules = Some (map marshalRule (Rules s)), key_interval_ms = Some (Interval s)\<rparr>"

text \<open>
  \<^verbatim>\<open>Duration.Milliseconds\<close> is \<^verbatim>\<open>int64(d) / 1e6\<close>, and Go's integer division
  truncates towards zero.
\<close>

definition Milliseconds :: "Duration \<Rightarrow> 64 word" where
  "Milliseconds d = word_of_int (sint d sdiv 1000000)"

text \<open>
  The compile loop of \<^verbatim>\<open>loadSettings\<close>: an empty pattern is not compiled, a pattern
  that fails to compile leaves the rule as it is (\<^verbatim>\<open>continue\<close>).
\<close>

fun compileRules :: "'rx regexp_pkg \<Rightarrow> 'rx Rule list \<Rightarrow> 'rx Rule list" where
  "compileRules re [] = []"
| "compileRules re (rule # rest) =
     (if Pattern rule \<noteq> []
      then (case Compile re (Pattern rule) of
              None \<Rightarrow> rule
            | Some rx \<Rightarrow> rule\<lparr>Regexp := Some rx\<rparr>)
      else rule) # compileRules re rest"

text \<open>
  \<^verbatim>\<open>loadSettings\<close>. The argument \<open>file\<close> is what \<^verbatim>\<open>os.ReadFile\<close> returns:
  \<^const>\<open>None\<close> when it fails.
\<close>

definition loadSettings :: "'rx regexp_pkg \<Rightarrow> file_content option \<Rightarrow> 'rx globals \<Rightarrow> 'rx globals" where
  "loadSettings re file g =
     (case file of
        None \<Rightarrow> g\<lparr>replacementRules := []\<rparr>
      | Some data \<Rightarrow>
          (case Unmarshal data of
             None \<Rightarrow> g
           | Some settings \<Rightarrow>
               g\<lparr>replacementRules := compileRules re (Rules settings),
                 monitorInterval := Interval settings * Millisecond\<rparr>))"

text \<open>
  \<^verbatim>\<open>saveSettings\<close>: the content handed to \<^verbatim>\<open>os.WriteFile\<close>. Marshalling this struct
  cannot fail, and the result of the write is ignored by the program.
\<close>

definition saveSettings :: "'rx globals \<Rightarrow> file_content" where
  "saveSettings g =
     MarshalIndent \<lparr>Rules = replacementRules g, Interval = Milliseconds (monitorInterval g)\<rparr>"

text \<open>The persisted fields of a rule.\<close>

definition persisted :: "'rx Rule \<Rightarrow> string \<times> string \<times> bool" where
  "persisted rule = (Pattern rule, Replacement rule, Enabled rule)"

section \<open>The monitor loop\<close>

text \<open>
  What a cycle does to its surroundings, in order: a call of \<^verbatim>\<open>clipboard.WriteAll\<close>
  with its argument and whether it succeeded, and a call of \<^verbatim>\<open>time.Sleep\<close>. Log
  output is not modelled.
\<close>

datatype effect = WriteAll string bool | Sleep Duration

datatype write_error = FailedAfterAttempts nat

text \<open>
  \<^verbatim>\<open>writeToClipboard\<close>: the loop \<^verbatim>\<open>for i := 0; i < maxAttempts; i++\<close>. The clipboard
  belongs to the host, so whether the attempt numbered \<open>i\<close> succeeds is an input,
  \<open>attempt_ok i\<close>.
\<close>

function writeLoop :: "(nat \<Rightarrow> bool) \<Rightarrow> string \<Rightarrow> nat \<Rightarrow> nat \<Rightarrow> write_error option \<times> effect list" where
  "writeLoop attempt_ok data maxAttempts i =
     (if i < maxAttempts
      then (if attempt_ok i then (None, [WriteAll data True])
            else (case writeLoop attempt_ok data maxAttempts (i + 1) of
                    (err, effs) \<Rightarrow>
                      (err, WriteAll data False # Sleep (200 * Millisecond) # effs)))
      else (Some (FailedAfterAttempts maxAttempts), []))"
  by pat_completeness auto
termination
  by (relation "measure (\<lambda>(attempt_ok, data, maxAttempts, i). maxAttempts - i)") auto

declare writeLoop.simps [simp del]

definition writeToClipboard :: "(nat \<Rightarrow> bool) \<Rightarrow> string \<Rightarrow> write_error option \<times> effect list" where
  "writeToClipboard attempt_ok data = writeLoop attempt_ok data 2 0"

text \<open>
  One iteration of the \<^verbatim>\<open>for\<close> loop of \<^verbatim>\<open>monitorClipboard\<close>. \<open>rd\<close> is what
  \<^verbatim>\<open>clipboard.ReadAll\<close> returns in this iteration, \<^const>\<open>Inl\<close> with the error's
  message or \<^const>\<open>Inr\<close> with the text; it is not consulted while monitoring is off.
\<close>

definition monitorCycle ::
  "'rx regexp_pkg \<Rightarrow> string + string \<Rightarrow> (nat \<Rightarrow> bool) \<Rightarrow> 'rx globals \<Rightarrow> 'rx globals \<times> effect list" where
  "monitorCycle re rd attempt_ok g =
     (if \<not> monitoring g then (g, [Sleep (200 * Millisecond)])
      else case rd of
        Inl err \<Rightarrow>
          if err = ''The operation completed successfully.''
          then (g\<lparr>statusLabel := ''Non-text content detected, skipping''\<rparr>,
                [Sleep (monitorInterval g)])
          else (g, [])
      | Inr currentText \<Rightarrow>
          if \<not> isTextContent currentText
          then (g\<lparr>statusLabel := ''Non-text content detected, skipping''\<rparr>,
                [Sleep (monitorInterval g)])
          else if isTextTooLarge currentText
          then (g\<lparr>statusLabel := ''Text too large, skipping''\<rparr>, [Sleep (monitorInterval g)])
          else if currentText \<noteq> lastText g
          then (let updatedText = applyRules re (replacementRules g) currentText
                in if updatedText \<noteq> currentText
                   then (case writeToClipboard attempt_ok updatedText of
                           (Some err, effs) \<Rightarrow>
                             (g\<lparr>statusLabel := ''Failed to write to clipboard''\<rparr>,
                              effs @ [Sleep (monitorInterval g)])
                         | (None, effs) \<Rightarrow>
                             (g\<lparr>statusLabel := ''Successfully wrote to clipboard'',
                                lastText := updatedText\<rparr>,
                              effs @ [Sleep (monitorInterval g)]))
                   else (g, [Sleep (monitorInterval g)]))
          else (g, [Sleep (monitorInterval g)]))"

text \<open>
  The loop itself never returns. \<^verbatim>\<open>monitorClipboard\<close> below runs the iterations for
  which an environment input is supplied, one pair of read result and write outcomes
  per iteration, and collects their effects.
\<close>

fun monitorClipboard ::
  "'rx regexp_pkg \<Rightarrow> ((string + string) \<times> (nat \<Rightarrow> bool)) list \<Rightarrow> 'rx globals \<Rightarrow> 'rx globals \<times> effect list" where
  "monitorClipboard re [] g = (g, [])"
| "monitorClipboard re ((rd, attempt_ok) # env) g =
     (case monitorCycle re rd attempt_ok g of
        (g', effs) \<Rightarrow>
          (case monitorClipboard re env g' of
             (g'', effs') \<Rightarrow> (g'', effs @ effs')))"

section \<open>The add action of the control surface\<close>

text \<open>
  The handler of \<^verbatim>\<open>addRuleButton\<close>. It reads the two entry widgets, so their texts
  are part of the state it works on; the third component of the result is the content
  \<^verbatim>\<open>saveSettings\<close> wrote, if it was called.
\<close>

record entries =
  rulePatternEntry :: string
  ruleReplacementEntry :: string

definition addRuleTapped ::
  "'rx regexp_pkg \<Rightarrow> entries \<Rightarrow> 'rx globals \<Rightarrow> entries \<times> 'rx globals \<times> file_content option" where
  "addRuleTapped re ui g =
     (if rulePatternEntry ui = [] \<or> ruleReplacementEntry ui = [] then (ui, g, None)
      else (let newRule = \<lparr>Pattern = rulePatternEntry ui,
                            Replacement = ruleReplacementEntry ui,
                            Enabled = True, Regexp = None\<rparr>
            in case Compile re (Pattern newRule) of
                 None \<Rightarrow> (ui, g, None)
               | Some rx \<Rightarrow>
                   (let g' = g\<lparr>replacementRules :=
                                 replacementRules g @ [newRule\<lparr>Regexp := Some rx\<rparr>]\<rparr>
                    in (\<lparr>rulePatternEntry = [], ruleReplacementEntry = []\<rparr>, g',
                        Some (saveSettings g')))))"

section \<open>A fragment of the regexp package for running the model\<close>

text \<open>
  To evaluate the model on concrete inputs, the parameter is instantiated with the
  part of Go's \<^verbatim>\<open>regexp\<close> that needs no parser: a pattern made of ASCII letters,
  digits and spaces matches itself, and a replacement template without \<^verbatim>\<open>$\<close> is
  inserted as it is. \<^verbatim>\<open>ReplaceAllString\<close> replaces the non-overlapping matches from
  the left; the empty pattern matches before every byte and at the end. Every other
  pattern is refused by this fragment; of those only \<^verbatim>\<open>[\<close>, which Go refuses as well
  (missing closing bracket), is used below. The theorems are stated for every
  value of the parameter; the fragment only serves the concrete instances.
\<close>

datatype literal_rx = Literal string

definition plainChar :: "char \<Rightarrow> bool" where
  "plainChar c =
     (c \<in> set ''abcdefghijklmnopqrstuvwxyzABCDEFGHIJKLMNOPQRSTUVWXYZ0123456789 '')"

fun occursIn :: "string \<Rightarrow> string \<Rightarrow> bool" where
  "occursIn pat [] = (pat = [])"
| "occursIn pat (c # cs) = (prefix pat (c # cs) \<or> occursIn pat cs)"

function replaceLiteral :: "string \<Rightarrow> string \<Rightarrow> string \<Rightarrow> string" where
  "replaceLiteral pat repl [] = (if pat = [] then repl else [])"
| "replaceLiteral pat repl (c # cs) =
     (if pat = [] then repl @ c # replaceLiteral pat repl cs
      else if prefix pat (c # cs)
      then repl @ replaceLiteral pat repl (drop (length pat) (c # cs))
      else c # replaceLiteral pat repl cs)"
  by pat_completeness auto
termination
  by (relation "measure (\<lambda>(pat, repl, src). length src)") (auto simp: Suc_le_eq)

definition literal_pkg :: "literal_rx regexp_pkg" where
  "literal_pkg =
     \<lparr>Compile = (\<lambda>p. if list_all plainChar p then Some (Literal p) else None),
      ReplaceAllString = (\<lambda>rx src repl. case rx of Literal pat \<Rightarrow> replaceLiteral pat repl src),
      MatchString = (\<lambda>rx src. case rx of Literal pat \<Rightarrow> occursIn pat src)\<rparr>"

text \<open>
  The contract of \<^verbatim>\<open>ReplaceAllString\<close> for a source without a match: the source
  comes back unchanged.
\<close>

definition replace_needs_match :: "'rx regexp_pkg \<Rightarrow> bool" where
  "replace_needs_match re =
     (\<forall>rx src repl. \<not> MatchString re rx src \<longrightarrow> ReplaceAllString re rx src repl = src)"

section \<open>Facts shared by the proofs\<close>

lemma applyRules_append:
  "applyRules re (xs @ ys) t = applyRules re ys (applyRules re xs t)"
  by (induction xs arbitrary: t) simp_all

lemma applyRules_foldl:
  "applyRules re rules t = foldl (spec_rule_step re) t rules"
  by (induction rules arbitrary: t) (auto simp: spec_rule_step_def split: option.splits)

lemma intermediates_no_match:
  assumes "replace_needs_match re"
    and "\<forall>p \<in> set (intermediates re rules input).
           Enabled (fst p) \<longrightarrow>
           (\<forall>rx. Regexp (fst p) = Some rx \<longrightarrow> \<not> MatchString re rx (snd p))"
  shows "applyRules re rules input = input"
  using assms(2)
proof (induction rules arbitrary: input)
  case Nil
  then show ?case by simp
next
  case (Cons rule rest)
  have step: "applyRules re [rule] input = input"
    using Cons.prems assms(1)
    by (auto simp: replace_needs_match_def split: option.splits)
  have "applyRules re rest input = input"
    using Cons.prems step by (intro Cons.IH) simp
  then show ?case using step by simp
qed

lemma replaceLiteral_no_match:
  "\<not> occursIn pat src \<Longrightarrow> replaceLiteral pat repl src = src"
  by (induction src) auto

lemma literal_pkg_needs_match: "replace_needs_match literal_pkg"
  by (auto simp: replace_needs_match_def literal_pkg_def replaceLiteral_no_match
      split: literal_rx.splits)

lemma writeToClipboard_unfold:
  "writeToClipboard attempt_ok data =
     (if attempt_ok 0 then (None, [WriteAll data True])
      else if attempt_ok 1
      then (None, [WriteAll data False, Sleep (200 * Millisecond), WriteAll data True])
      else (Some (FailedAfterAttempts 2),
            [WriteAll data False, Sleep (200 * Millisecond),
             WriteAll data False, Sleep (200 * Millisecond)]))"
  by (simp add: writeToClipboard_def writeLoop.simps [of _ _ 2 0]
      writeLoop.simps [of _ _ 2 "Suc 0"] writeLoop.simps [of _ _ 2 "Suc (Suc 0)"]
      writeLoop.simps [of _ _ 2 2])

lemma isTextContent_plain:
  "isTextContent ''foofoo''" "isTextContent ''barbar''"
  by (simp_all add: isTextContent_def classMatchString_def inClass_def controlClass_def)

lemma isTextContent_replicate:
  "0 < n \<Longrightarrow> isTextContent (replicate n (CHR ''a''))"
  by (simp add: isTextContent_def classMatchString_def list_ex_iff inClass_def
      controlClass_def)

lemma not_isTextTooLarge_plain:
  "\<not> isTextTooLarge ''foofoo''" "\<not> isTextTooLarge ''barbar''"
  by (simp_all add: isTextTooLarge_def maxTextSize_def)

lemma sdiv_exact: "(1000000 * k) sdiv 1000000 = (k::int)"
  by (simp add: signed_divide_int_def sgn_mult abs_mult sgn_mult_abs)

lemma Milliseconds_roundtrip:
  assumes "1000000 dvd sint d"
  shows "Milliseconds d * Millisecond = d"
proof -
  from assms obtain k where k: "sint d = 1000000 * k" by (auto simp: dvd_def)
  have "Milliseconds d * Millisecond = word_of_int k * word_of_int 1000000"
    by (simp add: Milliseconds_def Millisecond_def k sdiv_exact)
  also have "\<dots> = word_of_int (sint d)"
    by (simp add: k mult.commute)
  finally show ?thesis by simp
qed

lemma sint_times_Millisecond:
  assumes "0 \<le> sint n" and "sint n \<le> 9223372036854"
  shows "sint (n * Millisecond) = sint n * 1000000"
proof -
  have "sint (n * Millisecond) = signed_take_bit 63 (sint n * 1000000)"
    by (simp add: Millisecond_def sint_word_ariths)
  also have "\<dots> = sint n * 1000000"
    using assms by (simp add: signed_take_bit_int_eq_self)
  finally show ?thesis .
qed

lemma persisted_compileRules:
  "map persisted (compileRules re rs) = map persisted rs"
  by (induction rs) (auto simp: persisted_def split: option.splits)

lemma runeWidth_bounds:
  "runeWidth s = Some n \<Longrightarrow> 0 < n \<and> n \<le> length s"
  by (cases s) (auto simp: Let_def Suc_le_eq split: if_splits)

lemma coerceUTF8_valid: "validUTF8 s \<Longrightarrow> coerceUTF8 s = s"
proof (induction s rule: validUTF8.induct)
  case 1
  then show ?case by simp
next
  case (2 b bs)
  from "2.prems" obtain n where n: "runeWidth (b # bs) = Some n"
    by (auto split: option.splits)
  then have pos: "0 < n" using runeWidth_bounds by blast
  have rest: "coerceUTF8 (drop (n - 1) bs) = drop (n - 1) bs"
    using "2.IH" [OF n] "2.prems" n by simp
  have "take n (b # bs) @ drop (n - 1) bs = b # bs"
    using pos by (cases n) simp_all
  then show ?case using n rest by simp
qed

lemma persisted_unmarshal_marshal:
  "persisted (unmarshalRule (marshalRule r) :: 'b Rule) =
     (coerceUTF8 (Pattern r), coerceUTF8 (Replacement r), Enabled (r :: 'a Rule))"
  by (simp add: persisted_def unmarshalRule_def marshalRule_def)

lemma persisted_valid:
  "validUTF8 (Pattern r) \<and> validUTF8 (Replacement r) \<Longrightarrow>
   (coerceUTF8 (Pattern r), coerceUTF8 (Replacement r), Enabled r) = persisted r"
  by (simp add: persisted_def coerceUTF8_valid)

lemma Regexp_compileRules:
  "\<forall>r \<in> set rs. Regexp r = None \<Longrightarrow>
   \<forall>r \<in> set (compileRules re rs).
     Regexp r = (if Pattern r = [] then None else Compile re (Pattern r))"
  by (induction rs) (auto split: option.splits)

lemma marshalRule_Regexp: "marshalRule (r\<lparr>Regexp := m\<rparr>) = marshalRule r"
  by (simp add: marshalRule_def)

lemma successful_write_sets_lastText:
  assumes "monitorCycle re rd attempt_ok g = (g', effs)" and "WriteAll T True \<in> set effs"
  shows "lastText g' = T \<and> statusLabel g' = ''Successfully wrote to clipboard''"
  using assms
  by (auto simp: monitorCycle_def writeToClipboard_unfold Let_def
      split: if_splits sum.splits)

lemma cycle_on_lastText:
  "monitorCycle re (Inr (lastText g)) attempt_ok g =
     (if \<not> monitoring g then (g, [Sleep (200 * Millisecond)])
      else if \<not> isTextContent (lastText g)
      then (g\<lparr>statusLabel := ''Non-text content detected, skipping''\<rparr>,
            [Sleep (monitorInterval g)])
      else if isTextTooLarge (lastText g)
      then (g\<lparr>statusLabel := ''Text too large, skipping''\<rparr>, [Sleep (monitorInterval g)])
      else (g, [Sleep (monitorInterval g)]))"
  by (simp add: monitorCycle_def)

section \<open>The rule engine\<close>

text \<open>
  C1. For every ordered rule list and every input, \<^verbatim>\<open>applyRules\<close> is the left fold of
  the specification's rule step over the list: the result of the rules so far is the
  input of the next rule. A rule that is enabled and has a compiled matcher replaces
  the running text by what \<^verbatim>\<open>ReplaceAllString\<close> returns for it (every non-overlapping
  match replaced by the expanded template: the library's contract); a rule that is
  disabled or has no matcher leaves the running text as it is.
\<close>

theorem applyRules_left_fold:
  "applyRules re rules input = spec_apply re rules input \<and>
   applyRules re (rules @ [rule]) input =
     (if Enabled rule \<and> Regexp rule \<noteq> None
      then ReplaceAllString re (the (Regexp rule)) (applyRules re rules input)
             (Replacement rule)
      else applyRules re rules input)"
  by (auto simp: applyRules_append applyRules_foldl spec_apply_def spec_rule_step_def)

text \<open>
  C9. If \<^verbatim>\<open>ReplaceAllString\<close> returns its source unchanged when the expression has no
  match, and no enabled rule with a matcher has a match in the intermediate string it
  is applied to, then \<^verbatim>\<open>applyRules\<close> returns the input.
\<close>

theorem applyRules_no_match:
  assumes "replace_needs_match re"
    and "\<forall>p \<in> set (intermediates re rules input).
           Enabled (fst p) \<longrightarrow>
           (\<forall>rx. Regexp (fst p) = Some rx \<longrightarrow> \<not> MatchString re rx (snd p))"
  shows "applyRules re rules input = input"
  using assms by (rule intermediates_no_match)

theorem applyRules_no_match_witness:
  "applyRules literal_pkg
     [\<lparr>Pattern = ''foo'', Replacement = ''bar'', Enabled = True,
       Regexp = Some (Literal ''foo'')\<rparr>,
      \<lparr>Pattern = ''l'', Replacement = ''L'', Enabled = False, Regexp = Some (Literal ''l'')\<rparr>,
      \<lparr>Pattern = ''['', Replacement = ''x'', Enabled = True, Regexp = None\<rparr>]
     ''hello'' = ''hello''"
  by (rule applyRules_no_match [OF literal_pkg_needs_match]) (simp add: literal_pkg_def)

section \<open>Content classification\<close>

text \<open>
  C7. \<^verbatim>\<open>isTextContent\<close> holds exactly for the non-empty strings without a control
  byte other than common whitespace: no byte below \<^verbatim>\<open>0x20\<close> except tab
  (\<^verbatim>\<open>0x09\<close>), line feed (\<^verbatim>\<open>0x0A\<close>) and carriage return (\<^verbatim>\<open>0x0D\<close>).
\<close>

theorem isTextContent_iff:
  "isTextContent s \<longleftrightarrow>
     s \<noteq> [] \<and>
     (\<forall>c \<in> set s. \<not> ((of_char c :: nat) < 32 \<and> (of_char c :: nat) \<notin> {9, 10, 13}))"
proof -
  have "inClass controlClass c \<longleftrightarrow>
          (of_char c :: nat) < 32 \<and> (of_char c :: nat) \<notin> {9, 10, 13}" for c
    by (simp add: inClass_def controlClass_def) arith
  then show ?thesis
    by (simp add: isTextContent_def classMatchString_def list_ex_iff)
qed

theorem isTextContent_iff_witness:
  "isTextContent [CHR ''a'', CHR 0x09, CHR 0x7F] \<and>
   \<not> isTextContent [CHR ''a'', CHR 0x0B] \<and> \<not> isTextContent []"
  using isTextContent_iff [of "[CHR ''a'', CHR 0x09, CHR 0x7F]"]
    isTextContent_iff [of "[CHR ''a'', CHR 0x0B]"] isTextContent_iff [of "[]"]
  by simp

text \<open>
  C8. \<^verbatim>\<open>isTextTooLarge\<close> holds exactly when the content is longer than 256 KiB
  (262144 bytes). A cycle that reads such a content only sets the status label and
  sleeps: its outcome does not depend on the rules, the regexp package or the
  clipboard's write outcomes, it has no write among its effects, and the content is
  neither transformed nor truncated.
\<close>

theorem isTextTooLarge_skipped:
  "(isTextTooLarge s \<longleftrightarrow> length s > 256 * 1024) \<and>
   (isTextTooLarge s \<longrightarrow>
      monitorCycle re (Inr s) attempt_ok g =
        (if \<not> monitoring g then (g, [Sleep (200 * Millisecond)])
         else if isTextContent s
         then (g\<lparr>statusLabel := ''Text too large, skipping''\<rparr>, [Sleep (monitorInterval g)])
         else (g\<lparr>statusLabel := ''Non-text content detected, skipping''\<rparr>,
               [Sleep (monitorInterval g)])))"
  by (simp add: isTextTooLarge_def maxTextSize_def monitorCycle_def)

theorem isTextTooLarge_skipped_witness:
  "isTextTooLarge (replicate 262145 (CHR ''a'')) \<and>
   \<not> isTextTooLarge (replicate 262144 (CHR ''a'')) \<and>
   monitorCycle literal_pkg (Inr (replicate 262145 (CHR ''a''))) (\<lambda>i. True)
     \<lparr>monitoring = True,
      replacementRules = [\<lparr>Pattern = ''a'', Replacement = ''b'', Enabled = True,
                           Regexp = Some (Literal ''a'')\<rparr>],
      monitorInterval = 500 * Millisecond, lastText = [], statusLabel = []\<rparr> =
     (\<lparr>monitoring = True,
       replacementRules = [\<lparr>Pattern = ''a'', Replacement = ''b'', Enabled = True,
                           Regexp = Some (Literal ''a'')\<rparr>],
       monitorInterval = 500 * Millisecond, lastText = [],
       statusLabel = ''Text too large, skipping''\<rparr>, [Sleep (500 * Millisecond)])"
  using isTextTooLarge_skipped [of "replicate 262145 (CHR ''a'')" literal_pkg "\<lambda>i. True"
      "\<lparr>monitoring = True,
      replacementRules = [\<lparr>Pattern = ''a'', Replacement = ''b'', Enabled = True,
                           Regexp = Some (Literal ''a'')\<rparr>],
      monitorInterval = 500 * Millisecond, lastText = [], statusLabel = []\<rparr>"]
    isTextTooLarge_skipped [of "replicate 262144 (CHR ''a'')" literal_pkg "\<lambda>i. True" initial]
  by (simp add: isTextContent_replicate)

section \<open>Persistence\<close>

text \<open>
  The round trip can lose the interval, and it can change a string. A state that
  \<^verbatim>\<open>loadSettings\<close> itself produces shows the first: the file gives \<^verbatim>\<open>interval_ms\<close>
  as 9223372036855; multiplying by \<^verbatim>\<open>time.Millisecond\<close> wraps around in \<^verbatim>\<open>int64\<close> to a
  duration that is not a whole number of milliseconds, \<^verbatim>\<open>saveSettings\<close> truncates it,
  and loading the saved form gives another interval. For the second, a replacement
  that is the single byte \<^verbatim>\<open>FF\<close> is not valid UTF-8: it is saved as \<^verbatim>\<open>\ufffd\<close> and
  comes back as the three bytes \<^verbatim>\<open>EF BF BD\<close>.
\<close>

theorem save_load_not_identity:
  "monitorInterval
     (loadSettings literal_pkg
        (Some (saveSettings
           (loadSettings literal_pkg
              (Some (Document \<lparr>key_rules = Some [], key_interval_ms = Some 9223372036855\<rparr>))
              initial)))
        initial) \<noteq>
   monitorInterval
     (loadSettings literal_pkg
        (Some (Document \<lparr>key_rules = Some [], key_interval_ms = Some 9223372036855\<rparr>))
        initial) \<and>
   map persisted (replacementRules (loadSettings literal_pkg
      (Some (saveSettings
         \<lparr>monitoring = False,
          replacementRules =
            [\<lparr>Pattern = ''foo'', Replacement = [CHR 0xFF], Enabled = True,
              Regexp = Some (Literal ''foo'')\<rparr>],
          monitorInterval = 500 * Millisecond, lastText = [], statusLabel = []\<rparr>))
      initial)) = [(''foo'', [CHR 0xEF, CHR 0xBF, CHR 0xBD], True)] \<and>
   [CHR 0xEF, CHR 0xBF, CHR 0xBD] \<noteq> [CHR 0xFF]"
  by (simp add: loadSettings_def saveSettings_def MarshalIndent_def Unmarshal_def
      Milliseconds_def Millisecond_def signed_divide_int_def marshalRule_def
      unmarshalRule_def persisted_def literal_pkg_def plainChar_def inRange_def Let_def)

text \<open>
  C3 (amended). For every state whose interval is a whole number of milliseconds,
  saving it and loading the saved form (into any state \<open>g0\<close>) gives the same number
  of rules in the same order, each with the same enabled flag and with its pattern and
  replacement as the JSON encoder writes them: every byte that is not part of a
  well-formed UTF-8 encoding replaced by U+FFFD. When the patterns and replacements
  are valid UTF-8, the pattern, replacement and enabled fields of every rule are the
  same. The interval is the same. The saved form does not depend on the matchers,
  whatever they are; after loading, each matcher is what compiling the loaded pattern
  gives (absent for an empty pattern). Nothing is assumed about which patterns
  compile.
\<close>

theorem save_load_roundtrip:
  assumes "1000000 dvd sint (monitorInterval g)"
  shows "map persisted (replacementRules (loadSettings re (Some (saveSettings g)) g0)) =
           map (\<lambda>r. (coerceUTF8 (Pattern r), coerceUTF8 (Replacement r), Enabled r))
             (replacementRules g) \<and>
         ((\<forall>r \<in> set (replacementRules g).
             validUTF8 (Pattern r) \<and> validUTF8 (Replacement r)) \<longrightarrow>
          map persisted (replacementRules (loadSettings re (Some (saveSettings g)) g0)) =
            map persisted (replacementRules g)) \<and>
         monitorInterval (loadSettings re (Some (saveSettings g)) g0) = monitorInterval g \<and>
         saveSettings
           (g\<lparr>replacementRules := map (\<lambda>r. r\<lparr>Regexp := m r\<rparr>) (replacementRules g)\<rparr>) =
           saveSettings g \<and>
         (\<forall>r \<in> set (replacementRules (loadSettings re (Some (saveSettings g)) g0)).
            Regexp r = (if Pattern r = [] then None else Compile re (Pattern r)))"
proof -
  let ?g' = "loadSettings re (Some (saveSettings g)) g0"
  have rules: "replacementRules ?g' =
      compileRules re (map (unmarshalRule \<circ> marshalRule) (replacementRules g))"
    by (simp add: loadSettings_def saveSettings_def MarshalIndent_def Unmarshal_def)
  have fields: "map persisted (replacementRules ?g') =
      map (\<lambda>r. (coerceUTF8 (Pattern r), coerceUTF8 (Replacement r), Enabled r))
        (replacementRules g)"
    by (simp add: rules persisted_compileRules persisted_unmarshal_marshal comp_def)
  have same: "map persisted (replacementRules ?g') = map persisted (replacementRules g)"
    if "\<forall>r \<in> set (replacementRules g). validUTF8 (Pattern r) \<and> validUTF8 (Replacement r)"
    unfolding fields using that by (intro map_cong refl persisted_valid) blast
  have interval: "monitorInterval ?g' = monitorInterval g"
    using Milliseconds_roundtrip [OF assms]
    by (simp add: loadSettings_def saveSettings_def MarshalIndent_def Unmarshal_def)
  have saved: "saveSettings
      (g\<lparr>replacementRules := map (\<lambda>r. r\<lparr>Regexp := m r\<rparr>) (replacementRules g)\<rparr>) =
      saveSettings g"
    by (simp add: saveSettings_def MarshalIndent_def marshalRule_Regexp comp_def)
  have matchers: "\<forall>r \<in> set (replacementRules ?g').
      Regexp r = (if Pattern r = [] then None else Compile re (Pattern r))"
    unfolding rules by (rule Regexp_compileRules) (simp add: unmarshalRule_def)
  from fields same interval saved matchers show ?thesis by blast
qed

theorem save_load_roundtrip_witness:
  "map persisted (replacementRules (loadSettings literal_pkg
      (Some (saveSettings
         \<lparr>monitoring = True,
          replacementRules =
            [\<lparr>Pattern = ''foo'', Replacement = [CHR 0xC3, CHR 0xA9], Enabled = True,
              Regexp = Some (Literal ''foo'')\<rparr>,
             \<lparr>Pattern = ''['', Replacement = ''x'', Enabled = False, Regexp = None\<rparr>],
          monitorInterval = 250 * Millisecond, lastText = ''t'', statusLabel = []\<rparr>))
      initial)) = [(''foo'', [CHR 0xC3, CHR 0xA9], True), (''['', ''x'', False)] \<and>
   monitorInterval (loadSettings literal_pkg
      (Some (saveSettings
         \<lparr>monitoring = True,
          replacementRules =
            [\<lparr>Pattern = ''foo'', Replacement = [CHR 0xC3, CHR 0xA9], Enabled = True,
              Regexp = Some (Literal ''foo'')\<rparr>,
             \<lparr>Pattern = ''['', Replacement = ''x'', Enabled = False, Regexp = None\<rparr>],
          monitorInterval = 250 * Millisecond, lastText = ''t'', statusLabel = []\<rparr>))
      initial) = 250 * Millisecond"
proof -
  let ?g = "\<lparr>monitoring = True,
          replacementRules =
            [\<lparr>Pattern = ''foo'', Replacement = [CHR 0xC3, CHR 0xA9], Enabled = True,
              Regexp = Some (Literal ''foo'')\<rparr>,
             \<lparr>Pattern = ''['', Replacement = ''x'', Enabled = False, Regexp = None\<rparr>],
          monitorInterval = 250 * Millisecond, lastText = ''t'', statusLabel = []\<rparr>"
  have whole: "1000000 dvd sint (monitorInterval ?g)"
    by (simp add: Millisecond_def)
  have valid: "\<forall>r \<in> set (replacementRules ?g).
      validUTF8 (Pattern r) \<and> validUTF8 (Replacement r)"
    by (simp add: inRange_def Let_def)
  show ?thesis
    using save_load_roundtrip [OF whole, of literal_pkg initial] valid
    by (simp add: persisted_def inRange_def Let_def)
qed

text \<open>
  \<^verbatim>\<open>loadSettings\<close> has no check on the interval. A file with \<^verbatim>\<open>interval_ms\<close> of -5
  leaves a negative interval, one with 0 or without the key leaves 0; none of them
  leaves the 500 ms the program starts with.
\<close>

theorem loadSettings_negative_interval:
  "sint (monitorInterval
     (loadSettings literal_pkg
        (Some (Document \<lparr>key_rules = Some [], key_interval_ms = Some (- 5)\<rparr>))
        initial)) = - 5000000 \<and>
   monitorInterval
     (loadSettings literal_pkg
        (Some (Document \<lparr>key_rules = Some [], key_interval_ms = Some 0\<rparr>))
        initial) = 0 \<and>
   monitorInterval
     (loadSettings literal_pkg
        (Some (Document \<lparr>key_rules = Some [], key_interval_ms = None\<rparr>))
        initial) = 0 \<and>
   sint (monitorInterval (initial :: literal_rx globals)) = 500000000"
  by (simp add: loadSettings_def Unmarshal_def Millisecond_def initial_def)

text \<open>
  C4 (amended). After \<^verbatim>\<open>loadSettings\<close> on a file that is read and parsed, the interval
  is \<^verbatim>\<open>interval_ms\<close> times one millisecond in \<^verbatim>\<open>int64\<close> arithmetic, and 0 when the key
  is missing; it is left as it was when the file cannot be read or parsed. It is
  non-negative when \<^verbatim>\<open>interval_ms\<close> lies between 0 and 9223372036854.
\<close>

theorem loadSettings_interval:
  "monitorInterval (loadSettings re disk g) =
     (case disk of
        None \<Rightarrow> monitorInterval g
      | Some Malformed \<Rightarrow> monitorInterval g
      | Some (Document obj) \<Rightarrow>
          (case key_interval_ms obj of None \<Rightarrow> 0 | Some n \<Rightarrow> n * Millisecond)) \<and>
   (disk = Some (Document obj) \<and> key_interval_ms obj = Some n \<and>
    0 \<le> sint n \<and> sint n \<le> 9223372036854 \<longrightarrow>
      sint (monitorInterval (loadSettings re disk g)) = sint n * 1000000 \<and>
      0 \<le> sint (monitorInterval (loadSettings re disk g)))"
  by (auto simp: loadSettings_def Unmarshal_def sint_times_Millisecond
      split: option.splits file_content.splits)

theorem loadSettings_interval_witness:
  "sint (monitorInterval
     (loadSettings literal_pkg
        (Some (Document \<lparr>key_rules = Some [], key_interval_ms = Some 250\<rparr>))
        initial)) = 250000000 \<and>
   monitorInterval (loadSettings literal_pkg None initial) = 500 * Millisecond \<and>
   monitorInterval (loadSettings literal_pkg (Some Malformed) initial) = 500 * Millisecond"
  using loadSettings_interval [where re = literal_pkg and g = initial and n = 250
      and obj = "\<lparr>key_rules = Some [], key_interval_ms = Some 250\<rparr>"
      and disk = "Some (Document \<lparr>key_rules = Some [], key_interval_ms = Some 250\<rparr>)"]
    loadSettings_interval [where re = literal_pkg and g = initial and n = 250
      and obj = "\<lparr>key_rules = Some [], key_interval_ms = Some 250\<rparr>"
      and disk = None]
    loadSettings_interval [where re = literal_pkg and g = initial and n = 250
      and obj = "\<lparr>key_rules = Some [], key_interval_ms = Some 250\<rparr>"
      and disk = "Some Malformed"]
  by (simp add: initial_def Millisecond_def)

text \<open>
  C5. A settings file lists a rule whose pattern does not compile and an enabled rule
  whose pattern compiles, in either order. \<^verbatim>\<open>loadSettings\<close> keeps both, in the order
  of the file, with their persisted fields; the first has no matcher. \<^verbatim>\<open>applyRules\<close>
  on the loaded list gives what it gives on the list loaded from the valid rule alone,
  which is its \<^verbatim>\<open>ReplaceAllString\<close> (an empty pattern is never compiled by
  \<^verbatim>\<open>loadSettings\<close>, so such a rule changes nothing).
\<close>

theorem invalid_pattern_isolated:
  assumes "Compile re pb = None" and "Compile re pg = Some rx"
    and "bad = \<lparr>key_pattern = Some pb, key_replacement = Some rb, key_enabled = Some eb\<rparr>"
    and "good = \<lparr>key_pattern = Some pg, key_replacement = Some rg, key_enabled = Some True\<rparr>"
    and "B = \<lparr>Pattern = pb, Replacement = rb, Enabled = eb, Regexp = None\<rparr>"
    and "G = \<lparr>Pattern = pg, Replacement = rg, Enabled = True,
              Regexp = (if pg = [] then None else Some rx)\<rparr>"
  shows "replacementRules (loadSettings re
            (Some (Document \<lparr>key_rules = Some [bad, good], key_interval_ms = iv\<rparr>)) g) =
           [B, G] \<and>
         replacementRules (loadSettings re
            (Some (Document \<lparr>key_rules = Some [good, bad], key_interval_ms = iv\<rparr>)) g) =
           [G, B] \<and>
         replacementRules (loadSettings re
            (Some (Document \<lparr>key_rules = Some [good], key_interval_ms = iv\<rparr>)) g) = [G] \<and>
         applyRules re [B, G] input = applyRules re [G] input \<and>
         applyRules re [G, B] input = applyRules re [G] input \<and>
         applyRules re [G] input =
           (if pg = [] then input else ReplaceAllString re rx input rg)"
  using assms by (simp add: loadSettings_def Unmarshal_def unmarshalRule_def)

theorem invalid_pattern_isolated_witness:
  "replacementRules (loadSettings literal_pkg
      (Some (Document \<lparr>key_rules = Some
         [\<lparr>key_pattern = Some ''['', key_replacement = Some ''x'', key_enabled = Some True\<rparr>,
          \<lparr>key_pattern = Some ''foo'', key_replacement = Some ''bar'',
           key_enabled = Some True\<rparr>],
         key_interval_ms = Some 500\<rparr>)) initial) =
     [\<lparr>Pattern = ''['', Replacement = ''x'', Enabled = True, Regexp = None\<rparr>,
      \<lparr>Pattern = ''foo'', Replacement = ''bar'', Enabled = True,
       Regexp = Some (Literal ''foo'')\<rparr>] \<and>
   applyRules literal_pkg
     [\<lparr>Pattern = ''['', Replacement = ''x'', Enabled = True, Regexp = None\<rparr>,
      \<lparr>Pattern = ''foo'', Replacement = ''bar'', Enabled = True,
       Regexp = Some (Literal ''foo'')\<rparr>]
     ''a[foo'' = ''a[bar''"
proof -
  have bad: "Compile literal_pkg ''['' = None"
    by (simp add: literal_pkg_def plainChar_def)
  have good: "Compile literal_pkg ''foo'' = Some (Literal ''foo'')"
    by (simp add: literal_pkg_def plainChar_def)
  show ?thesis
    using invalid_pattern_isolated [OF bad good refl refl refl refl,
        of "''x''" True "''bar''" "Some 500" initial "''a[foo''"]
    by (simp add: literal_pkg_def)
qed

section \<open>The monitor loop\<close>

text \<open>
  C6. A cycle that reads a text, finds it different from \<^verbatim>\<open>lastText\<close> and gets a
  different text from \<^verbatim>\<open>applyRules\<close> writes it back with at most two attempts,
  the second made only after the first has failed, and a pause of 200 ms after each
  failed attempt. If one of the two attempts succeeds, \<^verbatim>\<open>lastText\<close> becomes the
  transformed text and the status reports success; if both fail, the status reports
  the failure and \<^verbatim>\<open>lastText\<close> is as before.
\<close>

theorem write_back_two_attempts:
  assumes "monitoring g" and "isTextContent currentText"
    and "\<not> isTextTooLarge currentText"
    and "currentText \<noteq> lastText g"
    and "applyRules re (replacementRules g) currentText = updatedText"
    and "updatedText \<noteq> currentText"
  shows "monitorCycle re (Inr currentText) attempt_ok g =
     (if attempt_ok 0
      then (g\<lparr>statusLabel := ''Successfully wrote to clipboard'', lastText := updatedText\<rparr>,
            [WriteAll updatedText True, Sleep (monitorInterval g)])
      else if attempt_ok 1
      then (g\<lparr>statusLabel := ''Successfully wrote to clipboard'', lastText := updatedText\<rparr>,
            [WriteAll updatedText False, Sleep (200 * Millisecond),
             WriteAll updatedText True, Sleep (monitorInterval g)])
      else (g\<lparr>statusLabel := ''Failed to write to clipboard''\<rparr>,
            [WriteAll updatedText False, Sleep (200 * Millisecond),
             WriteAll updatedText False, Sleep (200 * Millisecond),
             Sleep (monitorInterval g)]))"
  using assms by (simp add: monitorCycle_def writeToClipboard_unfold)

theorem write_back_two_attempts_witness:
  "monitorCycle literal_pkg (Inr ''foofoo'') (\<lambda>i. i = 1)
     \<lparr>monitoring = True,
      replacementRules = [\<lparr>Pattern = ''foo'', Replacement = ''bar'', Enabled = True,
                           Regexp = Some (Literal ''foo'')\<rparr>],
      monitorInterval = 500 * Millisecond, lastText = ''old'', statusLabel = []\<rparr> =
     (\<lparr>monitoring = True,
       replacementRules = [\<lparr>Pattern = ''foo'', Replacement = ''bar'', Enabled = True,
                           Regexp = Some (Literal ''foo'')\<rparr>],
       monitorInterval = 500 * Millisecond, lastText = ''barbar'',
       statusLabel = ''Successfully wrote to clipboard''\<rparr>,
      [WriteAll ''barbar'' False, Sleep (200 * Millisecond), WriteAll ''barbar'' True,
       Sleep (500 * Millisecond)]) \<and>
   monitorCycle literal_pkg (Inr ''foofoo'') (\<lambda>i. False)
     \<lparr>monitoring = True,
      replacementRules = [\<lparr>Pattern = ''foo'', Replacement = ''bar'', Enabled = True,
                           Regexp = Some (Literal ''foo'')\<rparr>],
      monitorInterval = 500 * Millisecond, lastText = ''old'', statusLabel = []\<rparr> =
     (\<lparr>monitoring = True,
       replacementRules = [\<lparr>Pattern = ''foo'', Replacement = ''bar'', Enabled = True,
                           Regexp = Some (Literal ''foo'')\<rparr>],
       monitorInterval = 500 * Millisecond, lastText = ''old'',
       statusLabel = ''Failed to write to clipboard''\<rparr>,
      [WriteAll ''barbar'' False, Sleep (200 * Millisecond), WriteAll ''barbar'' False,
       Sleep (200 * Millisecond), Sleep (500 * Millisecond)])"
proof -
  let ?g = "\<lparr>monitoring = True,
      replacementRules = [\<lparr>Pattern = ''foo'', Replacement = ''bar'', Enabled = True,
                           Regexp = Some (Literal ''foo'')\<rparr>],
      monitorInterval = 500 * Millisecond, lastText = ''old'', statusLabel = []\<rparr>"
  have on: "monitoring ?g" by simp
  have new: "''foofoo'' \<noteq> lastText ?g" by simp
  have applied: "applyRules literal_pkg (replacementRules ?g) ''foofoo'' = ''barbar''"
    by (simp add: literal_pkg_def)
  have changed: "''barbar'' \<noteq> ''foofoo''" by simp
  note cycle = write_back_two_attempts [OF on isTextContent_plain(1)
      not_isTextTooLarge_plain(1) new applied changed]
  show ?thesis
    using cycle [of "\<lambda>i. i = 1"] cycle [of "\<lambda>i. False"] by simp
qed

text \<open>
  Applying the rules to a text the loop has written can change it again. With the
  rule that replaces \<^verbatim>\<open>a\<close> by \<^verbatim>\<open>aa\<close>, a cycle that reads \<^verbatim>\<open>a\<close> writes \<^verbatim>\<open>aa\<close>
  successfully, and \<^verbatim>\<open>applyRules\<close> on \<^verbatim>\<open>aa\<close> gives \<^verbatim>\<open>aaaa\<close>.
\<close>

theorem reapply_changes_written_text:
  "monitorCycle literal_pkg (Inr ''a'') (\<lambda>i. True)
     \<lparr>monitoring = True,
      replacementRules = [\<lparr>Pattern = ''a'', Replacement = ''aa'', Enabled = True,
                           Regexp = Some (Literal ''a'')\<rparr>],
      monitorInterval = 500 * Millisecond, lastText = [], statusLabel = []\<rparr> =
     (\<lparr>monitoring = True,
       replacementRules = [\<lparr>Pattern = ''a'', Replacement = ''aa'', Enabled = True,
                           Regexp = Some (Literal ''a'')\<rparr>],
       monitorInterval = 500 * Millisecond, lastText = ''aa'',
       statusLabel = ''Successfully wrote to clipboard''\<rparr>,
      [WriteAll ''aa'' True, Sleep (500 * Millisecond)]) \<and>
   applyRules literal_pkg
     [\<lparr>Pattern = ''a'', Replacement = ''aa'', Enabled = True, Regexp = Some (Literal ''a'')\<rparr>]
     ''aa'' = ''aaaa''"
  by (simp add: monitorCycle_def isTextContent_def classMatchString_def inClass_def
      controlClass_def isTextTooLarge_def maxTextSize_def writeToClipboard_unfold
      literal_pkg_def Let_def)

text \<open>
  C2 (amended). When a cycle has written a text \<open>T\<close> successfully, \<^verbatim>\<open>lastText\<close> is
  \<open>T\<close>. Whatever the control surface has done to the rules and the monitoring flag
  since (the state \<open>g2\<close> has the same \<^verbatim>\<open>lastText\<close>), a cycle that reads \<open>T\<close>
  only sleeps, after setting the status when \<open>T\<close> is not acceptable text: it writes
  nothing, keeps \<^verbatim>\<open>lastText\<close>, and its outcome does not depend on the rules or on the
  regexp package, so nothing is transformed. Applying the rules to \<open>T\<close> again gives
  \<open>T\<close> when \<^verbatim>\<open>ReplaceAllString\<close> leaves a source without a match unchanged and no
  enabled rule with a matcher matches in the intermediate string it is applied to.
\<close>

theorem feedback_skip_after_write:
  assumes "monitorCycle re rd attempt_ok g = (g', effs)"
    and "WriteAll T True \<in> set effs"
    and "lastText g2 = lastText g'"
  shows "lastText g' = T \<and>
    monitorCycle re2 (Inr T) attempt_ok2 g2 =
      (if \<not> monitoring g2 then (g2, [Sleep (200 * Millisecond)])
       else if \<not> isTextContent T
       then (g2\<lparr>statusLabel := ''Non-text content detected, skipping''\<rparr>,
             [Sleep (monitorInterval g2)])
       else if isTextTooLarge T
       then (g2\<lparr>statusLabel := ''Text too large, skipping''\<rparr>, [Sleep (monitorInterval g2)])
       else (g2, [Sleep (monitorInterval g2)])) \<and>
    (replace_needs_match re2 \<and>
     (\<forall>p \<in> set (intermediates re2 (replacementRules g2) T).
        Enabled (fst p) \<longrightarrow>
        (\<forall>rx. Regexp (fst p) = Some rx \<longrightarrow> \<not> MatchString re2 rx (snd p))) \<longrightarrow>
     applyRules re2 (replacementRules g2) T = T)"
proof -
  have T: "lastText g' = T"
    using successful_write_sets_lastText [OF assms(1,2)] by simp
  then have "lastText g2 = T" using assms(3) by simp
  then have "monitorCycle re2 (Inr T) attempt_ok2 g2 =
      (if \<not> monitoring g2 then (g2, [Sleep (200 * Millisecond)])
       else if \<not> isTextContent T
       then (g2\<lparr>statusLabel := ''Non-text content detected, skipping''\<rparr>,
             [Sleep (monitorInterval g2)])
       else if isTextTooLarge T
       then (g2\<lparr>statusLabel := ''Text too large, skipping''\<rparr>, [Sleep (monitorInterval g2)])
       else (g2, [Sleep (monitorInterval g2)]))"
    using cycle_on_lastText [of re2 g2 attempt_ok2] by simp
  with T show ?thesis
    using intermediates_no_match [of re2 "replacementRules g2" T] by blast
qed

theorem feedback_skip_after_write_witness:
  "monitorCycle literal_pkg (Inr ''barbar'') (\<lambda>i. True)
     \<lparr>monitoring = True,
      replacementRules = [\<lparr>Pattern = ''foo'', Replacement = ''bar'', Enabled = True,
                           Regexp = Some (Literal ''foo'')\<rparr>],
      monitorInterval = 500 * Millisecond, lastText = ''barbar'',
      statusLabel = ''Successfully wrote to clipboard''\<rparr> =
     (\<lparr>monitoring = True,
       replacementRules = [\<lparr>Pattern = ''foo'', Replacement = ''bar'', Enabled = True,
                           Regexp = Some (Literal ''foo'')\<rparr>],
       monitorInterval = 500 * Millisecond, lastText = ''barbar'',
       statusLabel = ''Successfully wrote to clipboard''\<rparr>, [Sleep (500 * Millisecond)]) \<and>
   applyRules literal_pkg
     [\<lparr>Pattern = ''foo'', Replacement = ''bar'', Enabled = True,
       Regexp = Some (Literal ''foo'')\<rparr>] ''barbar'' = ''barbar'' \<and>
   snd (monitorClipboard literal_pkg
     [(Inr ''foofoo'', \<lambda>i. True), (Inr ''barbar'', \<lambda>i. True)]
     \<lparr>monitoring = True,
      replacementRules = [\<lparr>Pattern = ''foo'', Replacement = ''bar'', Enabled = True,
                           Regexp = Some (Literal ''foo'')\<rparr>],
      monitorInterval = 500 * Millisecond, lastText = [], statusLabel = []\<rparr>) =
     [WriteAll ''barbar'' True, Sleep (500 * Millisecond), Sleep (500 * Millisecond)]"
proof -
  let ?g = "\<lparr>monitoring = True,
      replacementRules = [\<lparr>Pattern = ''foo'', Replacement = ''bar'', Enabled = True,
                           Regexp = Some (Literal ''foo'')\<rparr>],
      monitorInterval = 500 * Millisecond, lastText = [], statusLabel = []\<rparr>"
  let ?g' = "?g\<lparr>statusLabel := ''Successfully wrote to clipboard'', lastText := ''barbar''\<rparr>"
  have first: "monitorCycle literal_pkg (Inr ''foofoo'') (\<lambda>i. True) ?g =
      (?g', [WriteAll ''barbar'' True, Sleep (500 * Millisecond)])"
    by (simp add: monitorCycle_def isTextContent_plain not_isTextTooLarge_plain
        writeToClipboard_unfold literal_pkg_def Let_def)
  have wrote: "WriteAll ''barbar'' True \<in>
      set [WriteAll ''barbar'' True, Sleep (500 * Millisecond)]"
    by simp
  have same: "lastText ?g' = lastText ?g'" by simp
  have second: "monitorCycle literal_pkg (Inr ''barbar'') (\<lambda>i. True) ?g' =
      (?g', [Sleep (500 * Millisecond)]) \<and>
    applyRules literal_pkg (replacementRules ?g') ''barbar'' = ''barbar''"
    using feedback_skip_after_write [OF first wrote same, of literal_pkg "\<lambda>i. True"]
      literal_pkg_needs_match
    by (simp add: isTextContent_plain not_isTextTooLarge_plain literal_pkg_def)
  then show ?thesis
    using first by simp
qed

section \<open>The add action\<close>

text \<open>
  C10. The add action leaves everything as it is (rule list, entries, nothing saved)
  when the pattern entry or the replacement entry is empty or the pattern does not
  compile. Otherwise it appends exactly one rule: the pattern and the replacement of
  the entries, both non-empty, enabled, with the compiled pattern as its matcher.
\<close>

theorem addRuleTapped_all_or_nothing:
  "(rulePatternEntry ui = [] \<or> ruleReplacementEntry ui = [] \<or>
      Compile re (rulePatternEntry ui) = None \<longrightarrow>
    addRuleTapped re ui g = (ui, g, None)) \<and>
   (rulePatternEntry ui \<noteq> [] \<and> ruleReplacementEntry ui \<noteq> [] \<and>
      Compile re (rulePatternEntry ui) = Some rx \<longrightarrow>
    replacementRules (fst (snd (addRuleTapped re ui g))) =
      replacementRules g @
        [\<lparr>Pattern = rulePatternEntry ui, Replacement = ruleReplacementEntry ui,
          Enabled = True, Regexp = Some rx\<rparr>])"
  by (auto simp: addRuleTapped_def Let_def)

theorem addRuleTapped_all_or_nothing_witness:
  "replacementRules (fst (snd (addRuleTapped literal_pkg
      \<lparr>rulePatternEntry = ''foo'', ruleReplacementEntry = ''bar''\<rparr> initial))) =
     [\<lparr>Pattern = ''foo'', Replacement = ''bar'', Enabled = True,
       Regexp = Some (Literal ''foo'')\<rparr>] \<and>
   addRuleTapped literal_pkg \<lparr>rulePatternEntry = ''['', ruleReplacementEntry = ''x''\<rparr> initial =
     (\<lparr>rulePatternEntry = ''['', ruleReplacementEntry = ''x''\<rparr>, initial, None) \<and>
   addRuleTapped literal_pkg \<lparr>rulePatternEntry = ''foo'', ruleReplacementEntry = []\<rparr> initial =
     (\<lparr>rulePatternEntry = ''foo'', ruleReplacementEntry = []\<rparr>, initial, None)"
  using addRuleTapped_all_or_nothing
      [where ui = "\<lparr>rulePatternEntry = ''foo'', ruleReplacementEntry = ''bar''\<rparr>"
        and re = literal_pkg and rx = "Literal ''foo''" and g = initial]
    addRuleTapped_all_or_nothing
      [where ui = "\<lparr>rulePatternEntry = ''['', ruleReplacementEntry = ''x''\<rparr>"
        and re = literal_pkg and rx = "Literal ''foo''" and g = initial]
    addRuleTapped_all_or_nothing
      [where ui = "\<lparr>rulePatternEntry = ''foo'', ruleReplacementEntry = []\<rparr>"
        and re = literal_pkg and rx = "Literal ''foo''" and g = initial]
  by (simp add: literal_pkg_def plainChar_def initial_def)

end
